theory Spec2Isabelle
  imports Main "HOL-Library.Word"
begin

unbundle bit_operations_syntax

section \<open>Data model of the stat job (src/core/statjob.cpp)\<close>

subsection \<open>Qt value types the job code reads\<close>

text \<open>
  \<open>QUrl\<close> is a Qt class. The job code only asks whether a URL is empty, valid or a local
  file, prints it, and builds one from a local path; the record keeps what those
  questions need. \<open>rest\<close> is everything after the scheme.
\<close>

record QUrl =
  scheme :: string
  rest :: string
  wellformed :: bool

definition QUrl_null :: QUrl where
  "QUrl_null = \<lparr>scheme = [], rest = [], wellformed = False\<rparr>"

definition isEmpty :: "QUrl \<Rightarrow> bool" where
  "isEmpty u = (scheme u = [] \<and> rest u = [])"

definition isValid :: "QUrl \<Rightarrow> bool" where
  "isValid u = (wellformed u \<and> \<not> isEmpty u)"

definition isLocalFile :: "QUrl \<Rightarrow> bool" where
  "isLocalFile u = (scheme u = ''file'')"

definition fromLocalFile :: "string \<Rightarrow> QUrl" where
  "fromLocalFile p =
     (if p = [] then QUrl_null else \<lparr>scheme = ''file'', rest = p, wellformed = True\<rparr>)"

definition toDisplayString :: "QUrl \<Rightarrow> string" where
  "toDisplayString u = (if scheme u = [] then rest u else scheme u @ '':'' @ rest u)"

text \<open>
  A \<open>QByteArray\<close> filled through a \<open>QDataStream\<close> is kept as the sequence of values
  written to the stream; \<open>truncate(0)\<close> is the empty sequence.
\<close>

datatype stream_value = SUrl QUrl

type_synonym QByteArray = "stream_value list"

definition stream_out_url :: "QByteArray \<Rightarrow> QUrl \<Rightarrow> QByteArray" where
  "stream_out_url arr u = arr @ [SUrl u]"

text \<open>\<open>KIO_ARGS << url\<close>: a fresh byte array with the URL streamed into it.\<close>

definition KIO_ARGS_url :: "QUrl \<Rightarrow> QByteArray" where
  "KIO_ARGS_url u = stream_out_url [] u"

text \<open>\<open>QString::number(int)\<close>: the decimal rendering of a signed integer.\<close>

fun digits :: "nat \<Rightarrow> string" where
  "digits n =
     (if n < 10 then [''0123456789'' ! n]
      else digits (n div 10) @ [''0123456789'' ! (n mod 10)])"

declare digits.simps [simp del]

definition QString_number :: "int \<Rightarrow> string" where
  "QString_number n = (if n < 0 then ''-'' @ digits (nat (- n)) else digits (nat n))"

type_synonym MetaData = "string \<rightharpoonup> string"

subsection \<open>KIO declarations used by the job\<close>

text \<open>
  Modelled from the spec: the enum \<open>KIO::StatDetail\<close> is declared in global.h, which is
  not among the sources. The spec names the flags of the details bitmask as
  Basic / User-Time / ResolveSymlink-Acl / Inode; each flag is one bit of a 32-bit
  \<open>QFlags\<close> value, in that order, and the default asks for all but the inode.
\<close>

type_synonym StatDetails = "32 word"

definition StatBasic :: StatDetails where "StatBasic = 0x1"
definition StatUser :: StatDetails where "StatUser = 0x2"
definition StatTime :: StatDetails where "StatTime = 0x4"
definition StatResolveSymlink :: StatDetails where "StatResolveSymlink = 0x8"
definition StatAcl :: StatDetails where "StatAcl = 0x10"
definition StatInode :: StatDetails where "StatInode = 0x20"

definition StatDefaultDetails :: StatDetails where
  "StatDefaultDetails = StatBasic OR StatUser OR StatTime OR StatAcl OR StatResolveSymlink"

text \<open>\<open>QFlags::testFlag\<close>: all bits of the flag are set in the value.\<close>

definition testFlag :: "StatDetails \<Rightarrow> StatDetails \<Rightarrow> bool" where
  "testFlag i flag = (i AND flag = flag \<and> (flag \<noteq> 0 \<or> i = flag))"

text \<open>
  Modelled from the spec: \<open>UDSEntry\<close> (udsentry.cpp is not among the sources) is an
  ordered set of (attribute id, typed value) pairs; \<open>stringValue\<close> gives the string
  stored under an attribute, and the empty string when there is none. An attribute id
  carries the type of its value in its high byte.
\<close>

datatype uds_value = UDSString string | UDSNumber int

type_synonym UDSEntry = "(nat \<times> uds_value) list"

definition UDS_SIZE :: nat where
  "UDS_SIZE = 0x02000000 + 1"

definition UDS_NAME :: nat where
  "UDS_NAME = 0x01000000 + 5"

definition UDS_LOCAL_PATH :: nat where
  "UDS_LOCAL_PATH = 0x01000000 + 12"

definition stringValue :: "UDSEntry \<Rightarrow> nat \<Rightarrow> string" where
  "stringValue e field =
     (case map_of e field of Some (UDSString s) \<Rightarrow> s | Some (UDSNumber _) \<Rightarrow> [] | None \<Rightarrow> [])"

datatype Command = CMD_GET | CMD_PUT | CMD_STAT | CMD_LISTDIR | CMD_MKDIR | CMD_RENAME
  | CMD_SPECIAL | CMD_META_DATA | CMD_CONFIG

datatype KIO_Error = NoError | ERR_CONNECTION_BROKEN | ERR_ACCESS_DENIED | ERR_DOES_NOT_EXIST
  | ERR_FILE_ALREADY_EXIST | ERR_UNSUPPORTED_ACTION | ERR_USER_CANCELED | ERR_INTERNAL
  | ERR_SLAVE_DEFINED | ERR_LOOP_DETECTED

datatype JobFlag = HideProgressInfo | Resume | Overwrite

datatype StatSide = SourceSide | DestinationSide

text \<open>What a job lets its observers see: the Qt signals it emits, in order.\<close>

datatype job_signal =
    SigStating QUrl
  | SigRedirection QUrl
  | SigPermanentRedirection QUrl QUrl
  | SigResult

subsection \<open>The job object\<close>

text \<open>
  \<open>StatJobPrivate\<close> with the members of \<open>SimpleJobPrivate\<close> and \<open>KJob\<close> that
  statjob.cpp reads or writes. \<open>signals\<close> is the trace of emitted signals and
  \<open>issued\<close> the trace of commands handed to a worker, each with the packed arguments
  and the outgoing metadata of that moment.
\<close>

record StatJob =
  m_url :: QUrl
  m_command :: Command
  m_packedArgs :: QByteArray
  m_outgoingMetaData :: MetaData
  m_incomingMetaData :: MetaData
  m_redirectionHandlingEnabled :: bool
  error :: KIO_Error
  errorText :: string
  m_statResult :: UDSEntry
  m_redirectionURL :: QUrl
  m_bSource :: bool
  m_details :: StatDetails
  signals :: "job_signal list"
  issued :: "(Command \<times> QByteArray \<times> MetaData) list"

definition emit :: "job_signal \<Rightarrow> StatJob \<Rightarrow> StatJob" where
  "emit s j = j\<lparr>signals := signals j @ [s]\<rparr>"

text \<open>
  \<open>StatJobPrivate::newJob\<close> with the constructor of \<open>StatJobPrivate\<close>: the side is
  the source, the details are the default ones, nothing is recorded yet.
\<close>

definition newJob :: "QUrl \<Rightarrow> Command \<Rightarrow> QByteArray \<Rightarrow> JobFlag set \<Rightarrow> StatJob" where
  "newJob url command packedArgs flags =
     (let job = \<lparr>m_url = url, m_command = command, m_packedArgs = packedArgs,
                 m_outgoingMetaData = Map.empty, m_incomingMetaData = Map.empty,
                 m_redirectionHandlingEnabled = True,
                 error = NoError, errorText = [],
                 m_statResult = [], m_redirectionURL = QUrl_null,
                 m_bSource = True, m_details = StatDefaultDetails,
                 signals = [], issued = []\<rparr>
      in if HideProgressInfo \<notin> flags then emit (SigStating url) job else job)"

definition setSide :: "StatSide \<Rightarrow> StatJob \<Rightarrow> StatJob" where
  "setSide side j = j\<lparr>m_bSource := (side = SourceSide)\<rparr>"

definition setDetails :: "StatDetails \<Rightarrow> StatJob \<Rightarrow> StatJob" where
  "setDetails details j = j\<lparr>m_details := details\<rparr>"

definition detailsToStatDetails :: "32 word \<Rightarrow> StatDetails" where
  "detailsToStatDetails details =
     (let detailsFlag = StatBasic;
          detailsFlag = (if 0 < sint details
                         then detailsFlag OR (StatUser OR StatTime) else detailsFlag);
          detailsFlag = (if 1 < sint details
                         then detailsFlag OR (StatResolveSymlink OR StatAcl) else detailsFlag);
          detailsFlag = (if 2 < sint details
                         then detailsFlag OR StatInode else detailsFlag)
      in detailsFlag)"

text \<open>The deprecated overload takes a \<open>short int\<close>, widened to \<open>int\<close> by the call.\<close>

definition setDetails_short :: "16 word \<Rightarrow> StatJob \<Rightarrow> StatJob" where
  "setDetails_short details j = j\<lparr>m_details := detailsToStatDetails (scast details)\<rparr>"

definition statResult :: "StatJob \<Rightarrow> UDSEntry" where
  "statResult j = m_statResult j"

definition mostLocalUrl :: "StatJob \<Rightarrow> QUrl" where
  "mostLocalUrl j =
     (let url = m_url j in
      if isLocalFile url then url
      else let path = stringValue (m_statResult j) UDS_LOCAL_PATH
           in if path \<noteq> [] then fromLocalFile path else url)"

text \<open>
  Modelled from the spec: \<open>SimpleJobPrivate::start\<close> (simplejob.cpp is not among the
  sources) sends the initial command with the serialized arguments to the assigned
  worker. The model records the command together with the packed arguments and the
  outgoing metadata the job holds when it is sent.
\<close>

definition SimpleJobPrivate_start :: "StatJob \<Rightarrow> StatJob" where
  "SimpleJobPrivate_start j =
     j\<lparr>issued := issued j @ [(m_command j, m_packedArgs j, m_outgoingMetaData j)]\<rparr>"

text \<open>
  \<open>QString::number(m_details)\<close> converts the \<open>QFlags\<close> value through its
  \<open>operator Int()\<close>, which is unsigned for an enum without negative enumerators: the
  number sent is the unsigned reading of the 32 bits.
\<close>

definition start :: "StatJob \<Rightarrow> StatJob" where
  "start j =
     (let j = j\<lparr>m_outgoingMetaData :=
                  (m_outgoingMetaData j)(''statSide'' \<mapsto> (if m_bSource j then ''source'' else ''dest''))\<rparr>;
          j = j\<lparr>m_outgoingMetaData :=
                  (m_outgoingMetaData j)(''statDetails'' \<mapsto> QString_number (uint (m_details j)))\<rparr>
      in SimpleJobPrivate_start j)"

definition slotStatEntry :: "UDSEntry \<Rightarrow> StatJob \<Rightarrow> StatJob" where
  "slotStatEntry entry j = j\<lparr>m_statResult := entry\<rparr>"

text \<open>
  \<open>KUrlAuthorized::authorizeUrlAction\<close> is the pluggable authorization check; it is a
  parameter of the model: action, base URL, destination URL.
\<close>

type_synonym authorizer = "string \<Rightarrow> QUrl \<Rightarrow> QUrl \<Rightarrow> bool"

definition slotRedirection :: "authorizer \<Rightarrow> QUrl \<Rightarrow> StatJob \<Rightarrow> StatJob" where
  "slotRedirection authorizeUrlAction url j =
     (if \<not> authorizeUrlAction ''redirect'' (m_url j) url
      then j\<lparr>error := ERR_ACCESS_DENIED, errorText := toDisplayString url\<rparr>
      else let j = j\<lparr>m_redirectionURL := url\<rparr>
           in emit (SigRedirection (m_redirectionURL j)) j)"

text \<open>\<open>Job::queryMetaData\<close>: the metadata received from the worker, empty when absent.\<close>

definition queryMetaData :: "StatJob \<Rightarrow> string \<Rightarrow> string" where
  "queryMetaData j key = (case m_incomingMetaData j key of Some v \<Rightarrow> v | None \<Rightarrow> [])"

text \<open>
  Modelled from the spec: \<open>SimpleJobPrivate::restartAfterRedirection\<close> (simplejob.cpp
  is not among the sources) re-arms the job: the job now targets the redirection URL, the
  recorded URL it was handed is used up, and the job goes back to the scheduler. The
  limit on the chain of redirections is applied where the job is rescheduled, in
  \<open>run_stat_job\<close> below.
\<close>

definition restartAfterRedirection :: "StatJob \<Rightarrow> StatJob" where
  "restartAfterRedirection j = j\<lparr>m_url := m_redirectionURL j, m_redirectionURL := QUrl_null\<rparr>"

text \<open>
  Modelled from the spec: \<open>SimpleJob::slotFinished\<close> (simplejob.cpp is not among the
  sources) returns the worker to the scheduler and ends the job, which surfaces its
  outcome through the result signal.
\<close>

definition SimpleJob_slotFinished :: "StatJob \<Rightarrow> StatJob" where
  "SimpleJob_slotFinished j = emit SigResult j"

text \<open>
  \<open>StatJob::slotFinished\<close> either hands the job back to the scheduler for another
  round or ends it; the result says which.
\<close>

datatype outcome = Rearmed StatJob | Completed StatJob

definition slotFinished :: "StatJob \<Rightarrow> outcome" where
  "slotFinished j =
     (if \<not> isEmpty (m_redirectionURL j) \<and> isValid (m_redirectionURL j) then
        let j = (if queryMetaData j ''permanent-redirect'' = ''true''
                 then emit (SigPermanentRedirection (m_url j) (m_redirectionURL j)) j
                 else j)
        in if m_redirectionHandlingEnabled j
           then Rearmed (restartAfterRedirection
                  (j\<lparr>m_packedArgs := stream_out_url [] (m_redirectionURL j)\<rparr>))
           else Completed (SimpleJob_slotFinished j)
      else Completed (SimpleJob_slotFinished j))"

definition statDetails :: "QUrl \<Rightarrow> StatSide \<Rightarrow> StatDetails \<Rightarrow> JobFlag set \<Rightarrow> StatJob" where
  "statDetails url side details flags =
     (let packedArgs = KIO_ARGS_url url;
          job = newJob url CMD_STAT packedArgs flags;
          job = setSide side job;
          job = setDetails details job
      in job)"

definition stat :: "QUrl \<Rightarrow> JobFlag set \<Rightarrow> StatJob" where
  "stat url flags = statDetails url SourceSide StatDefaultDetails flags"

subsection \<open>A job under the scheduler\<close>

text \<open>
  \<open>StatJobPrivate::start\<close> connects two signals of the assigned worker to the job:
  \<open>statEntry\<close> and \<open>redirection\<close>. A worker is described by the signals it raises
  for the command it was sent, before it reports that it has finished.
\<close>

datatype slave_signal = SignalStatEntry UDSEntry | SignalRedirection QUrl

type_synonym worker = "Command \<times> QByteArray \<times> MetaData \<Rightarrow> slave_signal list"

fun deliver :: "authorizer \<Rightarrow> StatJob \<Rightarrow> slave_signal \<Rightarrow> StatJob" where
  "deliver auth j (SignalStatEntry entry) = slotStatEntry entry j"
| "deliver auth j (SignalRedirection url) = slotRedirection auth url j"

text \<open>
  Modelled from the spec: one round of a job under the scheduler (scheduler.cpp and
  simplejob.cpp are not among the sources). The scheduler assigns a worker and starts
  the job on it, the events of the worker reach the job in emission order, and the
  worker's \<open>finished\<close> reaches \<open>slotFinished\<close>.
\<close>

definition stat_round :: "authorizer \<Rightarrow> worker \<Rightarrow> StatJob \<Rightarrow> outcome" where
  "stat_round auth w j =
     (let j = start j
      in slotFinished (foldl (deliver auth) j (w (last (issued j)))))"

text \<open>
  Modelled from the spec: a job that is re-armed once more than the redirection-chain
  limit allows fails with a loop-detection error (simplejob.cpp and scheduler.cpp are
  not among the sources). It ends like any failed job, through the result signal.
\<close>

definition fail_redirection_loop :: "StatJob \<Rightarrow> StatJob" where
  "fail_redirection_loop j =
     SimpleJob_slotFinished
       (j\<lparr>error := ERR_LOOP_DETECTED, errorText := toDisplayString (m_url j)\<rparr>)"

text \<open>
  Modelled from the spec: the rescheduling of a re-armed job (scheduler.cpp and
  simplejob.cpp are not among the sources). A re-armed job goes back to the queue and
  is scheduled again, up to the configured redirection-chain limit; \<open>limit\<close> is the
  number of redirections the job may still follow. \<open>StatJob::slotFinished\<close> itself
  counts nothing: the limit is the scheduler's.
\<close>

fun run_stat_job :: "nat \<Rightarrow> authorizer \<Rightarrow> worker \<Rightarrow> StatJob \<Rightarrow> StatJob" where
  "run_stat_job 0 auth w j =
     (case stat_round auth w j of
        Rearmed j' \<Rightarrow> fail_redirection_loop j'
      | Completed j' \<Rightarrow> j')"
| "run_stat_job (Suc limit) auth w j =
     (case stat_round auth w j of
        Rearmed j' \<Rightarrow> run_stat_job limit auth w j'
      | Completed j' \<Rightarrow> j')"

text \<open>
  \<open>follow auth w n j\<close> is the job at its end when the chain of redirections that
  starts at \<open>j\<close> has exactly \<open>n\<close> hops, and \<open>None\<close> otherwise.
\<close>

fun follow :: "authorizer \<Rightarrow> worker \<Rightarrow> nat \<Rightarrow> StatJob \<Rightarrow> StatJob option" where
  "follow auth w 0 j =
     (case stat_round auth w j of Rearmed j' \<Rightarrow> None | Completed j' \<Rightarrow> Some j')"
| "follow auth w (Suc n) j =
     (case stat_round auth w j of Rearmed j' \<Rightarrow> follow auth w n j' | Completed j' \<Rightarrow> None)"

text \<open>Two URLs that redirect to each other, and a worker that serves them.\<close>

definition url_a :: QUrl where
  "url_a = \<lparr>scheme = ''proto'', rest = ''//host/a'', wellformed = True\<rparr>"

definition url_b :: QUrl where
  "url_b = \<lparr>scheme = ''proto'', rest = ''//host/b'', wellformed = True\<rparr>"

definition ping_pong :: worker where
  "ping_pong c =
     (case c of (cmd, args, md) \<Rightarrow>
        if args = [SUrl url_a] then [SignalRedirection url_b] else [SignalRedirection url_a])"

text \<open>A target that redirects once, to a target that answers.\<close>

definition one_hop :: worker where
  "one_hop c =
     (case c of (cmd, args, md) \<Rightarrow>
        if args = [SUrl url_a] then [SignalRedirection url_b]
        else [SignalStatEntry [(UDS_NAME, UDSString ''b''), (UDS_SIZE, UDSNumber 1234)]])"

definition authorize_all :: authorizer where
  "authorize_all action base dest = True"

definition authorize_none :: authorizer where
  "authorize_none action base dest = False"

section \<open>Data model of the worker (src/core/slavebase.h)\<close>

text \<open>
  slavebase.h declares the worker's interface and documents it; slavebase.cpp, which
  implements it, is not among the sources. The definitions of this section follow the
  documentation comments of the header and the design in the spec.
\<close>

subsection \<open>Events of one operation\<close>

datatype event =
    Data QByteArray
  | DataRequest
  | Connected
  | Error KIO_Error string
  | Finished
  | StatEntry UDSEntry
  | ListEntries "UDSEntry list"
  | TotalSize nat
  | ProcessedSize nat
  | Redirection QUrl
  | MimeType string
  | Warning string
  | InfoMessage string
  | MessageBoxRequest
  | CanResume
  | Metadata MetaData

fun is_terminal :: "event \<Rightarrow> bool" where
  "is_terminal (Error code text) = True"
| "is_terminal Finished = True"
| "is_terminal e = False"

text \<open>
  Modelled from the spec: the channel and dispatch layer of the worker (slavebase.cpp is
  not among the sources). \<open>Finished\<close> and \<open>Error\<close> are terminal: after either, no
  further event is delivered on the operation, and an event that arrives then is a
  protocol violation that aborts the channel. An operation that returns without a
  terminal event is treated by the loop as \<open>Error(InternalError)\<close>.
\<close>

record operation =
  delivered :: "event list"
  terminated :: bool
  aborted :: bool

definition fresh_operation :: operation where
  "fresh_operation = \<lparr>delivered = [], terminated = False, aborted = False\<rparr>"

definition send_event :: "operation \<Rightarrow> event \<Rightarrow> operation" where
  "send_event c e =
     (if terminated c then c\<lparr>aborted := True\<rparr>
      else c\<lparr>delivered := delivered c @ [e], terminated := is_terminal e\<rparr>)"

definition end_operation :: "operation \<Rightarrow> operation" where
  "end_operation c = (if terminated c then c else send_event c (Error ERR_INTERNAL []))"

definition run_operation :: "event list \<Rightarrow> operation" where
  "run_operation es = end_operation (foldl send_event fresh_operation es)"

text \<open>
  The event that closes an operation: its first terminal event, and the error of the
  loop when it has none.
\<close>

definition closing_event :: "event list \<Rightarrow> event" where
  "closing_event es =
     (case dropWhile (\<lambda>e. \<not> is_terminal e) es of
        [] \<Rightarrow> Error ERR_INTERNAL []
      | t # _ \<Rightarrow> t)"

subsection \<open>Session state of the worker\<close>

datatype loop_state = ReadingCommand | Executing

text \<open>
  The two metadata maps are members of \<open>SlaveBase\<close>. \<open>pendingTimeout\<close> is the armed
  special command: the seconds of waiting left and its data. \<open>dispatched\<close> is the
  trace of commands the loop handed to the operations, \<open>transmitted\<close> the trace of
  metadata maps sent to the application.
\<close>

record SlaveBase =
  mOutgoingMetaData :: MetaData
  mIncomingMetaData :: MetaData
  pendingTimeout :: "(nat \<times> QByteArray) option"
  loopState :: loop_state
  dispatched :: "(Command \<times> QByteArray) list"
  transmitted :: "MetaData list"

definition setMetaData :: "string \<Rightarrow> string \<Rightarrow> SlaveBase \<Rightarrow> SlaveBase" where
  "setMetaData key val s = s\<lparr>mOutgoingMetaData := (mOutgoingMetaData s)(key \<mapsto> val)\<rparr>"

text \<open>
  Modelled from the spec: \<open>SlaveBase::sendAndKeepMetaData\<close> and
  \<open>SlaveBase::sendMetaData\<close> (slavebase.cpp is not among the sources). Both transmit the
  outgoing metadata to the application; \<open>sendMetaData\<close> clears it afterwards, the other
  keeps it.
\<close>

definition sendAndKeepMetaData :: "SlaveBase \<Rightarrow> SlaveBase" where
  "sendAndKeepMetaData s = s\<lparr>transmitted := transmitted s @ [mOutgoingMetaData s]\<rparr>"

definition sendMetaData :: "SlaveBase \<Rightarrow> SlaveBase" where
  "sendMetaData s = (sendAndKeepMetaData s)\<lparr>mOutgoingMetaData := Map.empty\<rparr>"

text \<open>
  Modelled from the spec: \<open>SlaveBase::dispatch\<close> (slavebase.cpp is not among the
  sources) maps a command to its operation; the model records the call. The loop is
  back at reading commands when the operation has returned.
\<close>

definition dispatch :: "Command \<Rightarrow> QByteArray \<Rightarrow> SlaveBase \<Rightarrow> SlaveBase" where
  "dispatch cmd data s =
     s\<lparr>dispatched := dispatched s @ [(cmd, data)], loopState := ReadingCommand\<rparr>"

text \<open>
  Modelled from the spec: \<open>SlaveBase::setTimeoutSpecialCommand\<close> (slavebase.cpp is not
  among the sources). A negative timeout cancels a pending timeout; any other arms the
  one timeout there is, in place of a pending one.
\<close>

definition setTimeoutSpecialCommand :: "int \<Rightarrow> QByteArray \<Rightarrow> SlaveBase \<Rightarrow> SlaveBase" where
  "setTimeoutSpecialCommand timeout data s =
     (if timeout < 0 then s\<lparr>pendingTimeout := None\<rparr>
      else s\<lparr>pendingTimeout := Some (nat timeout, data)\<rparr>)"

text \<open>
  Modelled from the spec: the dispatch loop while no command arrives (slavebase.cpp is
  not among the sources). A second of waiting in \<open>ReadingCommand\<close> counts against the
  armed timeout; when the time is up the timeout is disarmed and \<open>special(data)\<close> is
  dispatched as if the application had sent it. Nothing fires while an operation runs.
\<close>

definition second_elapses :: "SlaveBase \<Rightarrow> SlaveBase" where
  "second_elapses s =
     (case loopState s of
        Executing \<Rightarrow> s
      | ReadingCommand \<Rightarrow>
          (case pendingTimeout s of
             None \<Rightarrow> s
           | Some (n, data) \<Rightarrow>
               if n \<le> 1 then dispatch CMD_SPECIAL data (s\<lparr>pendingTimeout := None\<rparr>)
               else s\<lparr>pendingTimeout := Some (n - 1, data)\<rparr>))"

fun idle :: "nat \<Rightarrow> SlaveBase \<Rightarrow> SlaveBase" where
  "idle 0 s = s"
| "idle (Suc n) s = idle n (second_elapses s)"

text \<open>A worker that has just been started and waits for its first command.\<close>

definition idle_worker :: SlaveBase where
  "idle_worker =
     \<lparr>mOutgoingMetaData = Map.empty, mIncomingMetaData = Map.empty, pendingTimeout = None,
      loopState = ReadingCommand, dispatched = [], transmitted = []\<rparr>"

text \<open>A command of the application reaches the loop while it reads.\<close>

definition command_arrives :: "Command \<Rightarrow> QByteArray \<Rightarrow> SlaveBase \<Rightarrow> SlaveBase" where
  "command_arrives cmd data s = dispatch cmd data (s\<lparr>loopState := Executing\<rparr>)"

section \<open>Properties of the stat job\<close>

lemmas StatDetail_defs =
  StatBasic_def StatUser_def StatTime_def StatResolveSymlink_def StatAcl_def StatInode_def

lemmas QUrl_defs =
  isEmpty_def isValid_def isLocalFile_def fromLocalFile_def QUrl_null_def toDisplayString_def

lemmas job_defs =
  stat_def statDetails_def newJob_def setSide_def setDetails_def KIO_ARGS_url_def
  stream_out_url_def emit_def Let_def

lemmas slot_defs =
  slotStatEntry_def slotRedirection_def slotFinished_def restartAfterRedirection_def
  SimpleJob_slotFinished_def queryMetaData_def statResult_def

subsection \<open>Events handled while the job is active\<close>

text \<open>
  C2, as the code has it. A \<open>StatEntry\<close> event stores the entry as the stat result and
  does not end the job. A \<open>Redirection\<close> event whose target passes the authorization
  check records the URL and does not end the job. On \<open>Finished\<close>, a recorded valid URL
  with redirection handling enabled makes the job reset its packed arguments to that
  URL alone and restart instead of finishing; with redirection handling disabled, or
  with no URL recorded, the job finishes and surfaces the stat result it holds.
\<close>

theorem statjob_event_handling:
  "statResult (slotStatEntry entry j) = entry
   \<and> signals (slotStatEntry entry j) = signals j
   \<and> (auth ''redirect'' (m_url j) url \<longrightarrow>
        m_redirectionURL (slotRedirection auth url j) = url
        \<and> signals (slotRedirection auth url j) = signals j @ [SigRedirection url])
   \<and> (\<not> isEmpty (m_redirectionURL j) \<and> isValid (m_redirectionURL j)
        \<and> m_redirectionHandlingEnabled j \<longrightarrow>
        (\<exists>j'. slotFinished j = Rearmed j'
              \<and> m_packedArgs j' = [SUrl (m_redirectionURL j)]
              \<and> m_url j' = m_redirectionURL j
              \<and> SigResult \<notin> set (drop (length (signals j)) (signals j'))))
   \<and> (\<not> m_redirectionHandlingEnabled j \<or> isEmpty (m_redirectionURL j) \<longrightarrow>
        (\<exists>j'. slotFinished j = Completed j'
              \<and> last (signals j') = SigResult
              \<and> statResult j' = statResult j))"
  by (auto simp add: slot_defs emit_def stream_out_url_def isValid_def Let_def)

theorem statjob_event_handling_witness:
  "statResult (slotStatEntry [(UDS_SIZE, UDSNumber 1234)] (stat url_a {HideProgressInfo}))
      = [(UDS_SIZE, UDSNumber 1234)]
   \<and> m_redirectionURL (slotRedirection authorize_all url_b (stat url_a {HideProgressInfo}))
      = url_b
   \<and> (\<exists>j'. slotFinished (slotRedirection authorize_all url_b (stat url_a {HideProgressInfo}))
               = Rearmed j'
            \<and> m_packedArgs j' = [SUrl url_b] \<and> m_url j' = url_b)
   \<and> (\<exists>j'. slotFinished
                (slotStatEntry [(UDS_SIZE, UDSNumber 1234)] (stat url_a {HideProgressInfo}))
               = Completed j'
            \<and> statResult j' = [(UDS_SIZE, UDSNumber 1234)])"
  using statjob_event_handling
          [of "[(UDS_SIZE, UDSNumber 1234)]" "stat url_a {HideProgressInfo}" authorize_all url_b]
        statjob_event_handling
          [of "[]" "slotRedirection authorize_all url_b (stat url_a {HideProgressInfo})"
              authorize_all url_b]
        statjob_event_handling
          [of "[]" "slotStatEntry [(UDS_SIZE, UDSNumber 1234)] (stat url_a {HideProgressInfo})"
              authorize_all url_b]
  by (simp add: authorize_all_def job_defs slot_defs QUrl_defs url_a_def url_b_def)

text \<open>
  The claim as written, that every \<open>Redirection\<close> event records its URL, fails for a
  target the authorization check rejects: nothing is recorded.
\<close>

theorem redirection_recorded_counterexample:
  "m_redirectionURL (slotRedirection authorize_none url_b (stat url_a {HideProgressInfo}))
     = QUrl_null
   \<and> QUrl_null \<noteq> url_b"
  by (simp add: authorize_none_def job_defs slot_defs QUrl_defs url_a_def url_b_def)

subsection \<open>Authorization of a redirection\<close>

text \<open>
  C3. \<open>slotRedirection\<close> first asks the authorization check whether the job's current
  URL may redirect to the new one. When the check rejects, the job's error is
  access-denied with the rejected URL as its text, the recorded redirection URL is left
  as it was (so a job with none recorded finishes on \<open>Finished\<close>, with that error,
  instead of following the redirect) and no signal is emitted. Only when the check
  accepts is the URL stored and the redirection signal emitted.
\<close>

theorem slotRedirection_authorized:
  "(\<not> auth ''redirect'' (m_url j) url \<longrightarrow>
      error (slotRedirection auth url j) = ERR_ACCESS_DENIED
      \<and> errorText (slotRedirection auth url j) = toDisplayString url
      \<and> m_redirectionURL (slotRedirection auth url j) = m_redirectionURL j
      \<and> signals (slotRedirection auth url j) = signals j
      \<and> (isEmpty (m_redirectionURL j) \<longrightarrow>
           (\<exists>r. slotFinished (slotRedirection auth url j) = Completed r
                \<and> error r = ERR_ACCESS_DENIED \<and> m_url r = m_url j)))
   \<and> (auth ''redirect'' (m_url j) url \<longrightarrow>
      m_redirectionURL (slotRedirection auth url j) = url
      \<and> signals (slotRedirection auth url j) = signals j @ [SigRedirection url]
      \<and> error (slotRedirection auth url j) = error j
      \<and> errorText (slotRedirection auth url j) = errorText j)"
  by (simp add: slot_defs emit_def Let_def)

theorem slotRedirection_authorized_witness:
  "error (slotRedirection authorize_none url_b (stat url_a {HideProgressInfo}))
      = ERR_ACCESS_DENIED
   \<and> errorText (slotRedirection authorize_none url_b (stat url_a {HideProgressInfo}))
      = ''proto://host/b''
   \<and> signals (slotRedirection authorize_none url_b (stat url_a {HideProgressInfo})) = []
   \<and> (\<exists>r. slotFinished (slotRedirection authorize_none url_b (stat url_a {HideProgressInfo}))
              = Completed r
           \<and> error r = ERR_ACCESS_DENIED \<and> m_url r = url_a)
   \<and> m_redirectionURL (slotRedirection authorize_all url_b (stat url_b {HideProgressInfo}))
      = url_b
   \<and> signals (slotRedirection authorize_all url_b (stat url_b {HideProgressInfo}))
      = [SigRedirection url_b]"
  using slotRedirection_authorized [of authorize_none "stat url_a {HideProgressInfo}" url_b]
        slotRedirection_authorized [of authorize_all "stat url_b {HideProgressInfo}" url_b]
  by (simp add: authorize_none_def authorize_all_def job_defs QUrl_defs url_a_def url_b_def)

subsection \<open>Chains of redirections\<close>

lemma issued_start:
  "issued (start j) =
     issued j @ [(m_command j, m_packedArgs j,
       (m_outgoingMetaData j)
         (''statSide'' \<mapsto> (if m_bSource j then ''source'' else ''dest''),
          ''statDetails'' \<mapsto> QString_number (uint (m_details j))))]"
  by (simp add: start_def SimpleJobPrivate_start_def Let_def)

lemma issued_deliver: "issued (deliver auth j s) = issued j"
  by (cases s) (simp_all add: slotStatEntry_def slotRedirection_def emit_def Let_def)

lemma issued_foldl_deliver: "issued (foldl (deliver auth) j ss) = issued j"
  by (induction ss arbitrary: j) (simp_all add: issued_deliver)

lemma issued_slotFinished:
  "slotFinished j = Rearmed r \<or> slotFinished j = Completed r \<Longrightarrow> issued r = issued j"
  by (auto simp: slotFinished_def Let_def emit_def restartAfterRedirection_def
        SimpleJob_slotFinished_def split: if_splits)

lemma issued_stat_round:
  "stat_round auth w j = Rearmed r \<Longrightarrow> length (issued r) = Suc (length (issued j))"
  "stat_round auth w j = Completed r \<Longrightarrow> length (issued r) = Suc (length (issued j))"
  unfolding stat_round_def Let_def
  using issued_slotFinished [of "foldl (deliver auth) (start j) (w (last (issued (start j))))" r]
  by (simp_all add: issued_foldl_deliver issued_start)

lemma follow_issued:
  "follow auth w n j = Some r \<Longrightarrow> length (issued r) = length (issued j) + n + 1"
proof (induction n arbitrary: j)
  case 0
  then show ?case
    by (auto split: outcome.splits dest: issued_stat_round)
next
  case (Suc n)
  then show ?case
    by (fastforce split: outcome.splits dest: issued_stat_round)
qed

lemma issued_fail_redirection_loop:
  "issued (fail_redirection_loop j) = issued j"
  by (simp add: fail_redirection_loop_def SimpleJob_slotFinished_def emit_def)

lemma slotFinished_Completed_result:
  "slotFinished j = Completed r \<Longrightarrow> last (signals r) = SigResult"
  by (auto simp: slotFinished_def Let_def emit_def SimpleJob_slotFinished_def
        split: if_splits)

lemma run_stat_job_result:
  "last (signals (run_stat_job limit auth w j)) = SigResult"
proof (induction limit arbitrary: j)
  case 0
  show ?case
  proof (cases "stat_round auth w j")
    case (Rearmed j')
    then show ?thesis
      by (simp add: fail_redirection_loop_def SimpleJob_slotFinished_def emit_def)
  next
    case (Completed j')
    then show ?thesis
      by (simp add: stat_round_def Let_def slotFinished_Completed_result)
  qed
next
  case (Suc limit)
  show ?case
  proof (cases "stat_round auth w j")
    case (Rearmed j')
    then show ?thesis by (simp add: Suc.IH)
  next
    case (Completed j')
    then show ?thesis
      by (simp add: stat_round_def Let_def slotFinished_Completed_result)
  qed
qed

lemma run_stat_job_issued:
  "length (issued (run_stat_job limit auth w j)) \<le> length (issued j) + limit + 1"
proof (induction limit arbitrary: j)
  case 0
  show ?case
    by (cases "stat_round auth w j")
       (simp_all add: issued_stat_round issued_fail_redirection_loop)
next
  case (Suc limit)
  show ?case
  proof (cases "stat_round auth w j")
    case (Rearmed j')
    from Suc.IH [of j'] issued_stat_round(1) [OF Rearmed] Rearmed show ?thesis
      by simp
  next
    case (Completed j')
    then show ?thesis
      by (simp add: issued_stat_round)
  qed
qed

lemma run_stat_job_follows:
  "follow auth w n j = Some r \<Longrightarrow> n \<le> limit \<Longrightarrow> run_stat_job limit auth w j = r"
proof (induction n arbitrary: j limit)
  case 0
  then show ?case
    by (cases limit) (simp_all split: outcome.splits)
next
  case (Suc n)
  from Suc.prems(2) obtain l where l: "limit = Suc l" and nl: "n \<le> l"
    by (cases limit) simp_all
  from Suc.prems(1) obtain j' where r: "stat_round auth w j = Rearmed j'"
    and f: "follow auth w n j' = Some r"
    by (auto split: outcome.splits)
  from Suc.IH [OF f nl] r l show ?case
    by simp
qed

lemma run_stat_job_fails:
  "\<forall>n\<le>limit. follow auth w n j = None \<Longrightarrow>
   error (run_stat_job limit auth w j) = ERR_LOOP_DETECTED"
proof (induction limit arbitrary: j)
  case 0
  then have "follow auth w 0 j = None" by simp
  then show ?case
    by (auto simp: fail_redirection_loop_def SimpleJob_slotFinished_def emit_def
          split: outcome.splits)
next
  case (Suc limit)
  have "0 \<le> Suc limit" by simp
  with Suc.prems have "follow auth w 0 j = None" by blast
  then obtain j' where r: "stat_round auth w j = Rearmed j'"
    by (auto split: outcome.splits)
  have "\<forall>n\<le>limit. follow auth w n j' = None"
  proof (intro allI impI)
    fix n
    assume "n \<le> limit"
    then have "Suc n \<le> Suc limit" by simp
    with Suc.prems have "follow auth w (Suc n) j = None" by blast
    with r show "follow auth w n j' = None" by simp
  qed
  from Suc.IH [OF this] r show ?case
    by simp
qed

text \<open>
  C4. Under the redirection-chain limit, the job that follows a chain of redirections
  always ends, with its result signal, after at most \<open>limit\<close> re-arms, that is at
  most \<open>limit + 1\<close> commands issued. Either the chain ends within the limit, and the
  job ends as the chain does, or it does not, and the job fails with the
  loop-detection error. The re-arm loop never goes on for ever.
\<close>

theorem redirection_chain_bounded:
  "last (signals (run_stat_job limit auth w j)) = SigResult
   \<and> length (issued (run_stat_job limit auth w j)) \<le> length (issued j) + limit + 1
   \<and> ((\<exists>n\<le>limit. follow auth w n j = Some (run_stat_job limit auth w j))
       \<or> ((\<forall>n\<le>limit. follow auth w n j = None)
           \<and> error (run_stat_job limit auth w j) = ERR_LOOP_DETECTED))
   \<and> (\<forall>n r. n \<le> limit \<and> follow auth w n j = Some r \<longrightarrow>
         run_stat_job limit auth w j = r)"
proof -
  have "(\<exists>n\<le>limit. follow auth w n j = Some (run_stat_job limit auth w j))
        \<or> ((\<forall>n\<le>limit. follow auth w n j = None)
            \<and> error (run_stat_job limit auth w j) = ERR_LOOP_DETECTED)"
  proof (cases "\<forall>n\<le>limit. follow auth w n j = None")
    case True
    with run_stat_job_fails [OF True] show ?thesis by simp
  next
    case False
    then obtain n r where n: "n \<le> limit" and f: "follow auth w n j = Some r"
      by auto
    from run_stat_job_follows [OF f n] f n show ?thesis by blast
  qed
  moreover have "\<forall>n r. n \<le> limit \<and> follow auth w n j = Some r \<longrightarrow>
                   run_stat_job limit auth w j = r"
    using run_stat_job_follows by blast
  ultimately show ?thesis
    using run_stat_job_result [of limit auth w j] run_stat_job_issued [of limit auth w j]
    by blast
qed

theorem redirection_chain_bounded_witness:
  "error (run_stat_job (Suc (Suc 0)) authorize_all ping_pong (stat url_a {HideProgressInfo}))
     = ERR_LOOP_DETECTED
   \<and> length (issued
        (run_stat_job (Suc (Suc 0)) authorize_all ping_pong (stat url_a {HideProgressInfo})))
     = 3
   \<and> follow authorize_all one_hop (Suc 0) (stat url_a {HideProgressInfo})
     = Some (run_stat_job (Suc (Suc 0)) authorize_all one_hop (stat url_a {HideProgressInfo}))
   \<and> m_url (run_stat_job (Suc (Suc 0)) authorize_all one_hop (stat url_a {HideProgressInfo}))
     = url_b
   \<and> error (run_stat_job (Suc (Suc 0)) authorize_all one_hop (stat url_a {HideProgressInfo}))
     = NoError
   \<and> last (signals
        (run_stat_job (Suc (Suc 0)) authorize_all one_hop (stat url_a {HideProgressInfo})))
     = SigResult"
  using redirection_chain_bounded
          [of "Suc (Suc 0)" authorize_all ping_pong "stat url_a {HideProgressInfo}"]
        redirection_chain_bounded
          [of "Suc (Suc 0)" authorize_all one_hop "stat url_a {HideProgressInfo}"]
  by (simp add: stat_round_def issued_start ping_pong_def one_hop_def authorize_all_def
        fail_redirection_loop_def job_defs slot_defs QUrl_defs url_a_def url_b_def
        start_def SimpleJobPrivate_start_def)

subsection \<open>The initial command\<close>

text \<open>
  C7. When the scheduler starts a stat job on a worker, the command issued is STAT, its
  packed arguments hold the target URL, and the outgoing metadata sent with it hold
  \<open>statSide\<close>, which is "source" or "dest" as set by \<open>setSide\<close>, and \<open>statDetails\<close>,
  the number set by \<open>setDetails\<close>, printed as the unsigned value of the bitmask.
\<close>

theorem start_sends_url_side_details:
  "issued (start (statDetails url side details flags))
     = [(CMD_STAT, [SUrl url],
         [''statSide'' \<mapsto> (if side = SourceSide then ''source'' else ''dest''),
          ''statDetails'' \<mapsto> QString_number (uint details)])]
   \<and> (\<exists>md. last (issued (start (setDetails details (setSide side j))))
               = (m_command j, m_packedArgs j, md)
            \<and> md ''statSide'' = Some (if side = SourceSide then ''source'' else ''dest'')
            \<and> md ''statDetails'' = Some (QString_number (uint details)))"
  by (simp add: issued_start job_defs)

theorem start_sends_url_side_details_witness:
  "issued (start (statDetails url_a DestinationSide StatBasic {}))
     = [(CMD_STAT, [SUrl url_a], [''statSide'' \<mapsto> ''dest'', ''statDetails'' \<mapsto> ''1''])]
   \<and> QString_number (uint StatDefaultDetails) = ''31''"
  using start_sends_url_side_details [of url_a DestinationSide StatBasic "{}"]
  by (simp add: QString_number_def StatDefaultDetails_def StatDetail_defs digits.simps)

subsection \<open>The stat result\<close>

text \<open>
  C8. The job stores the entry of a \<open>StatEntry\<close> event unmodified, whatever the job held
  before, and \<open>statResult\<close> surfaces it: two runs in which the worker emits the same
  entry surface equal results.
\<close>

theorem statResult_deterministic:
  "statResult (slotStatEntry entry j1) = entry
   \<and> statResult (slotStatEntry entry j2) = entry
   \<and> statResult (slotStatEntry entry j1) = statResult (slotStatEntry entry j2)
   \<and> statResult (foldl (deliver auth) j1 (ss1 @ [SignalStatEntry entry]))
     = statResult (foldl (deliver auth) j2 (ss2 @ [SignalStatEntry entry]))"
  by (simp add: statResult_def slotStatEntry_def)

theorem statResult_deterministic_witness:
  "statResult (slotStatEntry [(UDS_SIZE, UDSNumber 1234)] (stat url_a {}))
     = statResult (slotStatEntry [(UDS_SIZE, UDSNumber 1234)]
         (slotStatEntry [(UDS_SIZE, UDSNumber 1)] (stat url_a {HideProgressInfo})))"
  using statResult_deterministic
          [of "[(UDS_SIZE, UDSNumber 1234)]" "stat url_a {}"
              "slotStatEntry [(UDS_SIZE, UDSNumber 1)] (stat url_a {HideProgressInfo})"]
  by simp

text \<open>
  C9. \<open>mostLocalUrl\<close> is the job's own URL when that is a local file; otherwise it is
  the local-file URL of the \<open>UDS_LOCAL_PATH\<close> string of the stored stat result when that
  string is not empty, and the job's own URL when it is empty.
\<close>

theorem mostLocalUrl_cases:
  "mostLocalUrl j =
     (if isLocalFile (m_url j) then m_url j
      else if stringValue (statResult j) UDS_LOCAL_PATH \<noteq> []
           then fromLocalFile (stringValue (statResult j) UDS_LOCAL_PATH)
           else m_url j)
   \<and> (stringValue (statResult j) UDS_LOCAL_PATH = [] \<longrightarrow> mostLocalUrl j = m_url j)
   \<and> (\<not> isLocalFile (m_url j) \<and> stringValue (statResult j) UDS_LOCAL_PATH \<noteq> [] \<longrightarrow>
        isLocalFile (mostLocalUrl j)
        \<and> rest (mostLocalUrl j) = stringValue (statResult j) UDS_LOCAL_PATH)"
  by (simp add: mostLocalUrl_def statResult_def Let_def QUrl_defs)

theorem mostLocalUrl_cases_witness:
  "mostLocalUrl (stat url_a {}) = url_a
   \<and> mostLocalUrl (slotStatEntry [(UDS_LOCAL_PATH, UDSString ''/tmp/a'')] (stat url_a {}))
     = \<lparr>scheme = ''file'', rest = ''/tmp/a'', wellformed = True\<rparr>
   \<and> mostLocalUrl (slotStatEntry [(UDS_LOCAL_PATH, UDSString ''/tmp/a'')]
        (stat (fromLocalFile ''/home/b'') {}))
     = fromLocalFile ''/home/b''"
  using mostLocalUrl_cases [of "stat url_a {}"]
        mostLocalUrl_cases
          [of "slotStatEntry [(UDS_LOCAL_PATH, UDSString ''/tmp/a'')] (stat url_a {})"]
        mostLocalUrl_cases
          [of "slotStatEntry [(UDS_LOCAL_PATH, UDSString ''/tmp/a'')]
                 (stat (fromLocalFile ''/home/b'') {})"]
  by (simp add: job_defs slot_defs QUrl_defs url_a_def stringValue_def)

subsection \<open>The legacy details\<close>

lemma detailsToStatDetails_cases:
  "detailsToStatDetails d =
     (if sint d \<le> 0 then 1 else if sint d = 1 then 7 else if sint d = 2 then 31 else 63)"
  by (simp add: detailsToStatDetails_def StatDetail_defs Let_def)

text \<open>
  C10. The legacy conversion \<open>detailsToStatDetails\<close> always includes the Basic flag,
  includes the User and the Time flag exactly when details > 0, the ResolveSymlink and
  the Acl flag exactly when details > 1, and the Inode flag exactly when details > 2.
  It is monotone: a larger details value gives a superset of flags.
\<close>

theorem detailsToStatDetails_flags:
  "testFlag (detailsToStatDetails d) StatBasic
   \<and> (testFlag (detailsToStatDetails d) StatUser \<longleftrightarrow> 0 < sint d)
   \<and> (testFlag (detailsToStatDetails d) StatTime \<longleftrightarrow> 0 < sint d)
   \<and> (testFlag (detailsToStatDetails d) StatResolveSymlink \<longleftrightarrow> 1 < sint d)
   \<and> (testFlag (detailsToStatDetails d) StatAcl \<longleftrightarrow> 1 < sint d)
   \<and> (testFlag (detailsToStatDetails d) StatInode \<longleftrightarrow> 2 < sint d)
   \<and> (\<forall>d'. sint d \<le> sint d' \<longrightarrow>
         detailsToStatDetails d AND detailsToStatDetails d' = detailsToStatDetails d)"
  by (simp add: detailsToStatDetails_cases testFlag_def StatDetail_defs)

theorem detailsToStatDetails_flags_witness:
  "sint (1 :: 32 word) \<le> sint (3 :: 32 word)
   \<and> detailsToStatDetails 1 = 7 \<and> detailsToStatDetails 3 = 63
   \<and> detailsToStatDetails 1 AND detailsToStatDetails 3 = detailsToStatDetails 1
   \<and> testFlag (detailsToStatDetails 1) StatUser
   \<and> \<not> testFlag (detailsToStatDetails 1) StatAcl"
  using detailsToStatDetails_flags [of 1]
  by (simp add: detailsToStatDetails_cases)

section \<open>Properties of the worker\<close>

subsection \<open>Terminal events\<close>

lemma send_event_fields:
  "delivered (send_event c e) = (if terminated c then delivered c else delivered c @ [e])"
  "terminated (send_event c e) = (terminated c \<or> is_terminal e)"
  "aborted (send_event c e) = (aborted c \<or> terminated c)"
  by (simp_all add: send_event_def)

lemma foldl_send_terminated:
  "terminated c \<Longrightarrow>
   delivered (foldl send_event c es) = delivered c \<and> terminated (foldl send_event c es)"
  by (induction es arbitrary: c) (simp_all add: send_event_fields)

lemma foldl_send_delivered:
  "\<not> terminated c \<Longrightarrow>
   delivered (foldl send_event c es) =
     delivered c @ takeWhile (\<lambda>e. \<not> is_terminal e) es
       @ take 1 (dropWhile (\<lambda>e. \<not> is_terminal e) es)
   \<and> terminated (foldl send_event c es) = (dropWhile (\<lambda>e. \<not> is_terminal e) es \<noteq> [])"
proof (induction es arbitrary: c)
  case Nil
  then show ?case by simp
next
  case (Cons e es)
  show ?case
  proof (cases "is_terminal e")
    case True
    then have "terminated (send_event c e)"
      by (simp add: send_event_fields)
    from foldl_send_terminated [OF this, of es] True Cons.prems show ?thesis
      by (simp add: send_event_fields)
  next
    case False
    then have nt: "\<not> terminated (send_event c e)"
      using Cons.prems by (simp add: send_event_fields)
    from Cons.IH [OF nt] False Cons.prems show ?thesis
      by (simp add: send_event_fields)
  qed
qed

lemma closing_event_terminal: "is_terminal (closing_event es)"
proof (cases "dropWhile (\<lambda>e. \<not> is_terminal e) es")
  case Nil
  have "closing_event es = Error ERR_INTERNAL []"
    unfolding closing_event_def Nil by simp
  then show ?thesis by simp
next
  case (Cons t ts)
  have c: "closing_event es = t"
    unfolding closing_event_def Cons by simp
  from hd_dropWhile [of "\<lambda>e. \<not> is_terminal e" es] Cons have "is_terminal t" by simp
  with c show ?thesis by simp
qed

lemma run_operation_delivered:
  "delivered (run_operation es) = takeWhile (\<lambda>e. \<not> is_terminal e) es @ [closing_event es]
   \<and> terminated (run_operation es)"
proof -
  let ?c = "foldl send_event fresh_operation es"
  have f: "\<not> terminated fresh_operation" "delivered fresh_operation = []"
    by (simp_all add: fresh_operation_def)
  note d = foldl_send_delivered [OF f(1), of es]
  show ?thesis
  proof (cases "dropWhile (\<lambda>e. \<not> is_terminal e) es")
    case Nil
    have c: "closing_event es = Error ERR_INTERNAL []"
      unfolding closing_event_def Nil by simp
    from d Nil have "\<not> terminated ?c"
      and "delivered ?c = takeWhile (\<lambda>e. \<not> is_terminal e) es"
      unfolding Nil f(2) by simp_all
    then show ?thesis
      unfolding run_operation_def end_operation_def c by (simp add: send_event_fields)
  next
    case (Cons t ts)
    have c: "closing_event es = t"
      unfolding closing_event_def Cons by simp
    from d have "terminated ?c"
      and "delivered ?c = takeWhile (\<lambda>e. \<not> is_terminal e) es @ [t]"
      unfolding Cons f(2) by simp_all
    then show ?thesis
      unfolding run_operation_def end_operation_def c by simp
  qed
qed

lemma filter_takeWhile_not: "filter P (takeWhile (\<lambda>e. \<not> P e) es) = []"
  by (induction es) simp_all

text \<open>
  C1. Whatever events an operation tries to emit, the trace delivered for it holds
  exactly one terminal event, \<open>Finished\<close> or \<open>Error\<close>, and that event is the last
  one: the events before the first terminal event, then that event (or the error of the
  loop when the operation emitted none). Nothing emitted after it is delivered; it
  aborts the channel instead. So \<open>finished()\<close> after \<open>error()\<close>, or \<open>error()\<close>
  after \<open>finished()\<close>, adds no event.
\<close>

theorem operation_one_terminal_event:
  "delivered (run_operation es) = takeWhile (\<lambda>e. \<not> is_terminal e) es @ [closing_event es]
   \<and> length (filter is_terminal (delivered (run_operation es))) = 1
   \<and> is_terminal (last (delivered (run_operation es)))
   \<and> filter is_terminal (butlast (delivered (run_operation es))) = []
   \<and> delivered (send_event (run_operation es) e) = delivered (run_operation es)
   \<and> aborted (send_event (run_operation es) e)"
  by (simp add: run_operation_delivered filter_takeWhile_not closing_event_terminal
        send_event_fields)

theorem operation_one_terminal_event_witness:
  "delivered (run_operation [StatEntry [], Error ERR_ACCESS_DENIED ''/secret'', Finished])
     = [StatEntry [], Error ERR_ACCESS_DENIED ''/secret'']
   \<and> delivered (run_operation [StatEntry [], Finished, Error ERR_INTERNAL [], Data []])
     = [StatEntry [], Finished]
   \<and> delivered (run_operation [StatEntry []]) = [StatEntry [], Error ERR_INTERNAL []]"
  using operation_one_terminal_event
          [of "[StatEntry [], Error ERR_ACCESS_DENIED ''/secret'', Finished]"]
        operation_one_terminal_event
          [of "[StatEntry [], Finished, Error ERR_INTERNAL [], Data []]"]
        operation_one_terminal_event [of "[StatEntry []]"]
  by (simp add: closing_event_def)

subsection \<open>The timeout special command\<close>

lemma idle_executing: "loopState s = Executing \<Longrightarrow> idle n s = s"
  by (induction n) (simp_all add: second_elapses_def)

lemma idle_unarmed: "pendingTimeout s = None \<Longrightarrow> idle n s = s"
  by (induction n) (simp_all add: second_elapses_def split: loop_state.splits)

lemma idle_before:
  "loopState s = ReadingCommand \<Longrightarrow> pendingTimeout s = Some (t, d) \<Longrightarrow> n < t \<Longrightarrow>
   idle n s = s\<lparr>pendingTimeout := Some (t - n, d)\<rparr>"
proof (induction n arbitrary: s t)
  case 0
  then show ?case by simp
next
  case (Suc n)
  then have "idle n (second_elapses s)
               = (second_elapses s)\<lparr>pendingTimeout := Some ((t - 1) - n, d)\<rparr>"
    by (intro Suc.IH) (simp_all add: second_elapses_def)
  with Suc.prems show ?case
    by (simp add: second_elapses_def)
qed

lemma idle_fires:
  "loopState s = ReadingCommand \<Longrightarrow> pendingTimeout s = Some (t, d) \<Longrightarrow> t \<le> n \<Longrightarrow>
   1 \<le> n \<Longrightarrow> idle n s = dispatch CMD_SPECIAL d (s\<lparr>pendingTimeout := None\<rparr>)"
proof (induction n arbitrary: s t)
  case 0
  then show ?case by simp
next
  case (Suc n)
  show ?case
  proof (cases "t \<le> 1")
    case True
    with Suc.prems
    have "second_elapses s = dispatch CMD_SPECIAL d (s\<lparr>pendingTimeout := None\<rparr>)"
      by (simp add: second_elapses_def)
    then show ?thesis
      by (simp add: idle_unarmed dispatch_def)
  next
    case False
    with Suc.prems have se: "second_elapses s = s\<lparr>pendingTimeout := Some (t - 1, d)\<rparr>"
      by (simp add: second_elapses_def)
    have "idle n (second_elapses s)
            = dispatch CMD_SPECIAL d ((second_elapses s)\<lparr>pendingTimeout := None\<rparr>)"
      using Suc.prems False by (intro Suc.IH [where t = "t - 1"]) (simp_all add: se)
    then show ?thesis
      by (simp add: se)
  qed
qed

text \<open>
  C5. After \<open>setTimeoutSpecialCommand(timeout, data)\<close>: nothing fires while an
  operation runs; while the worker waits for a command, nothing is dispatched before
  the timeout is over, and once it is over \<open>special(data)\<close> has been dispatched
  exactly once, as if the application had sent it, the timeout is disarmed and the loop
  is waiting again, however long the wait lasts. A negative timeout cancels a pending
  one, and a new timeout replaces a pending one.
\<close>

theorem timeout_special_command:
  "(loopState s = Executing \<longrightarrow>
      idle n (setTimeoutSpecialCommand t d s) = setTimeoutSpecialCommand t d s)
   \<and> (loopState s = ReadingCommand \<and> 0 \<le> t \<and> n < nat t \<longrightarrow>
      dispatched (idle n (setTimeoutSpecialCommand t d s)) = dispatched s)
   \<and> (loopState s = ReadingCommand \<and> 0 \<le> t \<and> nat t \<le> n \<and> 1 \<le> n \<longrightarrow>
      idle n (setTimeoutSpecialCommand t d s)
        = command_arrives CMD_SPECIAL d (s\<lparr>pendingTimeout := None\<rparr>)
      \<and> dispatched (idle n (setTimeoutSpecialCommand t d s))
        = dispatched s @ [(CMD_SPECIAL, d)]
      \<and> pendingTimeout (idle n (setTimeoutSpecialCommand t d s)) = None
      \<and> loopState (idle n (setTimeoutSpecialCommand t d s)) = ReadingCommand)
   \<and> (t < 0 \<longrightarrow>
      pendingTimeout (setTimeoutSpecialCommand t d s) = None
      \<and> idle n (setTimeoutSpecialCommand t d s) = s\<lparr>pendingTimeout := None\<rparr>)
   \<and> setTimeoutSpecialCommand t d (setTimeoutSpecialCommand t' d' s)
       = setTimeoutSpecialCommand t d s"
proof -
  let ?s = "setTimeoutSpecialCommand t d s"
  have armed: "0 \<le> t \<Longrightarrow> pendingTimeout ?s = Some (nat t, d)"
    and loop: "loopState ?s = loopState s"
    and off: "?s\<lparr>pendingTimeout := None\<rparr> = s\<lparr>pendingTimeout := None\<rparr>"
    by (simp_all add: setTimeoutSpecialCommand_def)
  have A: "loopState s = Executing \<longrightarrow> idle n ?s = ?s"
    by (simp add: idle_executing loop)
  have B: "loopState s = ReadingCommand \<and> 0 \<le> t \<and> n < nat t \<longrightarrow>
             dispatched (idle n ?s) = dispatched s"
  proof (intro impI, elim conjE)
    assume h: "loopState s = ReadingCommand" "0 \<le> t" "n < nat t"
    have "idle n ?s = ?s\<lparr>pendingTimeout := Some (nat t - n, d)\<rparr>"
      using h by (intro idle_before) (simp_all add: loop armed)
    then show "dispatched (idle n ?s) = dispatched s"
      by (simp add: setTimeoutSpecialCommand_def)
  qed
  have C: "loopState s = ReadingCommand \<and> 0 \<le> t \<and> nat t \<le> n \<and> 1 \<le> n \<longrightarrow>
             idle n ?s = command_arrives CMD_SPECIAL d (s\<lparr>pendingTimeout := None\<rparr>)
             \<and> dispatched (idle n ?s) = dispatched s @ [(CMD_SPECIAL, d)]
             \<and> pendingTimeout (idle n ?s) = None
             \<and> loopState (idle n ?s) = ReadingCommand"
  proof (intro impI, elim conjE)
    assume h: "loopState s = ReadingCommand" "0 \<le> t" "nat t \<le> n" "1 \<le> n"
    have "idle n ?s = dispatch CMD_SPECIAL d (?s\<lparr>pendingTimeout := None\<rparr>)"
      using h by (intro idle_fires [where t = "nat t"]) (simp_all add: loop armed)
    then show "idle n ?s = command_arrives CMD_SPECIAL d (s\<lparr>pendingTimeout := None\<rparr>)
             \<and> dispatched (idle n ?s) = dispatched s @ [(CMD_SPECIAL, d)]
             \<and> pendingTimeout (idle n ?s) = None
             \<and> loopState (idle n ?s) = ReadingCommand"
      by (simp add: off command_arrives_def dispatch_def)
  qed
  have D: "t < 0 \<longrightarrow> pendingTimeout ?s = None \<and> idle n ?s = s\<lparr>pendingTimeout := None\<rparr>"
    by (simp add: setTimeoutSpecialCommand_def idle_unarmed)
  have E: "setTimeoutSpecialCommand t d (setTimeoutSpecialCommand t' d' s) = ?s"
    by (simp add: setTimeoutSpecialCommand_def)
  from A B C D E show ?thesis by blast
qed

theorem timeout_special_command_witness:
  "dispatched (idle 2 (setTimeoutSpecialCommand 3 [SUrl url_a] idle_worker)) = []
   \<and> dispatched (idle 3 (setTimeoutSpecialCommand 3 [SUrl url_a] idle_worker))
     = [(CMD_SPECIAL, [SUrl url_a])]
   \<and> dispatched (idle 10 (setTimeoutSpecialCommand 3 [SUrl url_a] idle_worker))
     = [(CMD_SPECIAL, [SUrl url_a])]
   \<and> dispatched (idle 10 (setTimeoutSpecialCommand (- 1) []
        (setTimeoutSpecialCommand 3 [SUrl url_a] idle_worker))) = []
   \<and> dispatched (idle 10 (setTimeoutSpecialCommand 3 [SUrl url_a]
        (idle_worker\<lparr>loopState := Executing\<rparr>))) = []"
proof -
  let ?d = "[SUrl url_a]"
  let ?x = "idle_worker\<lparr>loopState := Executing\<rparr>"
  have w: "loopState idle_worker = ReadingCommand" "dispatched idle_worker = []"
    and x: "loopState ?x = Executing" "dispatched ?x = []"
    by (simp_all add: idle_worker_def)
  have d: "\<And>t d s. dispatched (setTimeoutSpecialCommand t d s) = dispatched s"
    by (simp add: setTimeoutSpecialCommand_def)
  have "dispatched (idle 2 (setTimeoutSpecialCommand 3 ?d idle_worker)) = []"
    using timeout_special_command [of idle_worker 2 3 ?d] w by simp
  moreover have "dispatched (idle 3 (setTimeoutSpecialCommand 3 ?d idle_worker))
                   = [(CMD_SPECIAL, ?d)]"
    using timeout_special_command [of idle_worker 3 3 ?d] w
    by (simp add: command_arrives_def dispatch_def)
  moreover have "dispatched (idle 10 (setTimeoutSpecialCommand 3 ?d idle_worker))
                   = [(CMD_SPECIAL, ?d)]"
    using timeout_special_command [of idle_worker 10 3 ?d] w
    by (simp add: command_arrives_def dispatch_def)
  moreover have "dispatched (idle 10 (setTimeoutSpecialCommand (- 1) []
                   (setTimeoutSpecialCommand 3 ?d idle_worker))) = []"
    using timeout_special_command [of "setTimeoutSpecialCommand 3 ?d idle_worker" 10 "- 1" "[]"]
      w d by simp
  moreover have "dispatched (idle 10 (setTimeoutSpecialCommand 3 ?d ?x)) = []"
    using timeout_special_command [of ?x 10 3 ?d] x d by simp
  ultimately show ?thesis by simp
qed

subsection \<open>Outgoing metadata\<close>

text \<open>
  C6. \<open>sendMetaData\<close> transmits the outgoing metadata accumulated so far and clears
  it, so that what a later flush transmits holds only what was set since;
  \<open>sendAndKeepMetaData\<close> transmits the same and clears nothing, so that a later flush
  still holds it.
\<close>

theorem sendMetaData_clears:
  "transmitted (sendMetaData s) = transmitted s @ [mOutgoingMetaData s]
   \<and> mOutgoingMetaData (sendMetaData s) = Map.empty
   \<and> transmitted (sendAndKeepMetaData s) = transmitted s @ [mOutgoingMetaData s]
   \<and> mOutgoingMetaData (sendAndKeepMetaData s) = mOutgoingMetaData s
   \<and> last (transmitted (sendMetaData (setMetaData k v (sendMetaData s)))) = [k \<mapsto> v]
   \<and> last (transmitted (sendMetaData (setMetaData k v (sendAndKeepMetaData s))))
     = (mOutgoingMetaData s)(k \<mapsto> v)"
  by (simp add: sendMetaData_def sendAndKeepMetaData_def setMetaData_def)

theorem sendMetaData_clears_witness:
  "last (transmitted (sendMetaData (setMetaData ''b'' ''2''
           (sendMetaData (setMetaData ''a'' ''1'' idle_worker))))) ''a'' = None
   \<and> last (transmitted (sendMetaData (setMetaData ''b'' ''2''
           (sendAndKeepMetaData (setMetaData ''a'' ''1'' idle_worker))))) ''a'' = Some ''1''"
  using sendMetaData_clears [of "setMetaData ''a'' ''1'' idle_worker" "''b''" "''2''"]
  by (simp add: setMetaData_def sendMetaData_def sendAndKeepMetaData_def idle_worker_def)

end
